theory Spec2Isabelle
  imports Main "HOL-Library.Word"
begin

section \<open>Data model of \<^verbatim>\<open>main.go\<close>\<close>

text \<open>
  The consumer stores Soroswap pairs in one SQLite table. Go strings and byte slices are
  byte sequences, modelled as \<^typ>\<open>string\<close> (a list of 8-bit characters). A
  \<^verbatim>\<open>time.Time\<close> is passed through the program unchanged (decoded, bound to a statement
  parameter, stored); it is modelled as an integer instant. \<^verbatim>\<open>int64\<close> is a 64-bit word.
\<close>

type_synonym bytes = string
type_synonym timestamp = int
type_synonym int64 = "64 word"

text \<open>A value of Go's \<^verbatim>\<open>interface{}\<close>: the message payload and the configuration values.\<close>

datatype go_value =
    GoNil
  | GoBytes bytes
  | GoString string
  | GoInt int
  | GoBool bool

text \<open>\<^verbatim>\<open>type NewPairEvent struct\<close> (lines 24-30).\<close>

record NewPairEvent =
  np_Type :: string
  np_PairAddress :: string
  np_Token0 :: string
  np_Token1 :: string
  np_Timestamp :: timestamp

text \<open>\<^verbatim>\<open>type SyncEvent struct\<close> (lines 32-39).\<close>

record SyncEvent =
  sy_Type :: string
  sy_ContractID :: string
  sy_NewReserve0 :: string
  sy_NewReserve1 :: string
  sy_Timestamp :: timestamp
  sy_LedgerSequence :: int64

text \<open>
  One row of \<^verbatim>\<open>soroswap_pairs\<close> (the \<^verbatim>\<open>CREATE TABLE\<close> of lines 90-104). The two
  nullable columns are options; the \<^verbatim>\<open>NOT NULL\<close> columns are plain values.
\<close>

record pair_row =
  pair_address :: string
  token_0 :: string
  token_1 :: string
  reserve_0 :: string
  reserve_1 :: string
  created_at :: timestamp
  last_sync_at :: "timestamp option"
  last_sync_ledger :: "int64 option"

text \<open>
  The \<^verbatim>\<open>*sql.DB\<close> handle of Go's \<^verbatim>\<open>database/sql\<close>, together with the table of the
  database file it is connected to. \<open>closed\<close> is the handle's own flag; \<open>conn_closes\<close>
  counts how many times the underlying connections were actually released.
\<close>

record sql_DB =
  dsn :: string
  closed :: bool
  conn_closes :: nat
  soroswap_pairs :: "pair_row list"

text \<open>\<^verbatim>\<open>type SaveSoroswapPairsToSQLite struct\<close> (lines 16-21); a nil \<^verbatim>\<open>db\<close> is \<open>None\<close>.\<close>

record consumer =
  db :: "sql_DB option"
  dbPath :: string
  name :: string
  version :: string

text \<open>\<^verbatim>\<open>pluginapi.Message\<close>: only its payload is read.\<close>

record Message =
  Payload :: go_value

text \<open>Every \<^verbatim>\<open>fmt.Errorf\<close> of the source is one constructor.\<close>

datatype error =
    ExpectedBytes
  | DecodeEventType
  | DecodeNewPairEvent
  | DecodeSyncEvent
  | UnknownEventType string
  | InvalidNewPairEvent
  | BeginTxFailed
  | PrepareFailed
  | InsertPairFailed
  | RowsAffectedFailed
  | CommitFailed
  | CheckExistenceFailed
  | UpdateReservesFailed
  | OpenFailed
  | PingFailed
  | PragmaFailed
  | CreateTableFailed
  | CloseFailed

text \<open>
  What a method call does: it returns nil, returns an error, or panics (a method call on
  the nil \<^verbatim>\<open>*sql.DB\<close> dereferences a nil pointer).
\<close>

datatype outcome = Success | Failure error | Panic

text \<open>
  The storage calls can fail for reasons outside the program (I/O, the 30 second deadline
  of the context, a busy database). One flag per call site says whether that call fails
  in the run under consideration.
\<close>

record faults =
  begin_tx_fails :: bool
  prepare_fails :: bool
  query_fails :: bool
  exec_fails :: bool
  rows_affected_fails :: bool
  commit_fails :: bool

definition no_faults :: faults where
  "no_faults = \<lparr>begin_tx_fails = False, prepare_fails = False, query_fails = False,
     exec_fails = False, rows_affected_fails = False, commit_fails = False\<rparr>"

definition storage_ok :: "faults \<Rightarrow> bool" where
  "storage_ok F \<longleftrightarrow> \<not> begin_tx_fails F \<and> \<not> prepare_fails F \<and> \<not> query_fails F \<and>
     \<not> exec_fails F \<and> \<not> rows_affected_fails F \<and> \<not> commit_fails F"

text \<open>The rows the consumer can see: those of the table behind its handle.\<close>

definition pairs :: "consumer \<Rightarrow> pair_row list" where
  "pairs s = (case db s of None \<Rightarrow> [] | Some h \<Rightarrow> soroswap_pairs h)"

definition addresses :: "pair_row list \<Rightarrow> string list" where
  "addresses t = map pair_address t"

section \<open>The SQL statements\<close>

text \<open>
  SQLite's \<^verbatim>\<open>length(X)\<close> of a text value is the number of characters before the first
  NUL character. The driver binds a Go string with its byte length, so a string may hold
  a NUL. The function below counts bytes, not characters; the schema only compares the
  result with 0, and both counts are 0 for the same strings.
\<close>

definition sqlite_length :: "string \<Rightarrow> nat" where
  "sqlite_length x = length (takeWhile (\<lambda>c. c \<noteq> CHR 0x00) x)"

text \<open>The three \<^verbatim>\<open>CHECK (length(...) > 0)\<close> constraints of the table (lines 101-103).\<close>

definition check_constraints :: "pair_row \<Rightarrow> bool" where
  "check_constraints r \<longleftrightarrow>
     sqlite_length (pair_address r) > 0 \<and>
     sqlite_length (token_0 r) > 0 \<and>
     sqlite_length (token_1 r) > 0"

text \<open>
  \<^verbatim>\<open>INSERT INTO soroswap_pairs (...) VALUES (?, ?, ?, ?, '0', '0')
  ON CONFLICT (pair_address) DO NOTHING\<close> (lines 177-181). A violated \<^verbatim>\<open>CHECK\<close> aborts
  the statement with an error (\<open>None\<close>); the conflict clause covers the primary key only,
  and there the statement does nothing and affects 0 rows. The result is the new table
  and the number of affected rows.
\<close>

definition insert_pair ::
  "pair_row list \<Rightarrow> string \<Rightarrow> string \<Rightarrow> string \<Rightarrow> timestamp \<Rightarrow> (pair_row list \<times> nat) option" where
  "insert_pair t a t0 t1 ts =
     (let r = \<lparr>pair_address = a, token_0 = t0, token_1 = t1,
                reserve_0 = ''0'', reserve_1 = ''0'', created_at = ts,
                last_sync_at = None, last_sync_ledger = None\<rparr>
      in if \<not> check_constraints r then None
         else if a \<in> set (addresses t) then Some (t, 0)
         else Some (t @ [r], 1))"

text \<open>
  \<^verbatim>\<open>SELECT EXISTS (SELECT 1 FROM soroswap_pairs WHERE pair_address = ?)\<close>
  (lines 220-222).
\<close>

definition select_exists :: "pair_row list \<Rightarrow> string \<Rightarrow> bool" where
  "select_exists t a \<longleftrightarrow> a \<in> set (addresses t)"

text \<open>
  \<^verbatim>\<open>UPDATE soroswap_pairs SET reserve_0 = ?, reserve_1 = ?, last_sync_at = ?,
  last_sync_ledger = ? WHERE pair_address = ?\<close> (lines 235-240).
\<close>

definition set_reserves :: "string \<Rightarrow> string \<Rightarrow> timestamp \<Rightarrow> int64 \<Rightarrow> pair_row \<Rightarrow> pair_row" where
  "set_reserves r0 r1 ts seq r =
     r\<lparr>reserve_0 := r0, reserve_1 := r1, last_sync_at := Some ts, last_sync_ledger := Some seq\<rparr>"

definition update_reserves ::
  "pair_row list \<Rightarrow> string \<Rightarrow> string \<Rightarrow> timestamp \<Rightarrow> int64 \<Rightarrow> string \<Rightarrow> pair_row list \<times> nat" where
  "update_reserves t r0 r1 ts seq a =
     (map (\<lambda>r. if pair_address r = a then set_reserves r0 r1 ts seq r else r) t,
      length (filter (\<lambda>r. pair_address r = a) t))"

section \<open>The handlers\<close>

text \<open>
  \<^verbatim>\<open>handleNewPair\<close> (lines 160-206). The validation comes first; then the transaction:
  begin, prepare, execute, rows affected, commit. Every early return runs the deferred
  \<^verbatim>\<open>tx.Rollback()\<close>, so the table is the old one unless the commit succeeded.
\<close>

definition handleNewPair :: "faults \<Rightarrow> NewPairEvent \<Rightarrow> consumer \<Rightarrow> outcome \<times> consumer" where
  "handleNewPair F event s =
     (if np_PairAddress event = [] \<or> np_Token0 event = [] \<or> np_Token1 event = []
      then (Failure InvalidNewPairEvent, s)
      else case db s of
        None \<Rightarrow> (Panic, s)
      | Some h \<Rightarrow>
          if closed h \<or> begin_tx_fails F then (Failure BeginTxFailed, s)
          else if prepare_fails F then (Failure PrepareFailed, s)
          else (case (if exec_fails F then None
                      else insert_pair (soroswap_pairs h) (np_PairAddress event)
                             (np_Token0 event) (np_Token1 event) (np_Timestamp event)) of
             None \<Rightarrow> (Failure InsertPairFailed, s)
           | Some (t', affectedRows) \<Rightarrow>
               if rows_affected_fails F then (Failure RowsAffectedFailed, s)
               else if commit_fails F then (Failure CommitFailed, s)
               else (Success, s\<lparr>db := Some (h\<lparr>soroswap_pairs := t'\<rparr>)\<rparr>)))"

text \<open>
  \<^verbatim>\<open>handleSync\<close> (lines 208-266): begin, the existence query, the early return for an
  unknown pair, then prepare, execute, rows affected, commit. No field of the event is
  checked.
\<close>

definition handleSync :: "faults \<Rightarrow> SyncEvent \<Rightarrow> consumer \<Rightarrow> outcome \<times> consumer" where
  "handleSync F event s =
     (case db s of
        None \<Rightarrow> (Panic, s)
      | Some h \<Rightarrow>
          if closed h \<or> begin_tx_fails F then (Failure BeginTxFailed, s)
          else if query_fails F then (Failure CheckExistenceFailed, s)
          else if \<not> select_exists (soroswap_pairs h) (sy_ContractID event) then (Success, s)
          else if prepare_fails F then (Failure PrepareFailed, s)
          else if exec_fails F then (Failure UpdateReservesFailed, s)
          else (case update_reserves (soroswap_pairs h) (sy_NewReserve0 event)
                       (sy_NewReserve1 event) (sy_Timestamp event) (sy_LedgerSequence event)
                       (sy_ContractID event) of
             (t', affectedRows) \<Rightarrow>
               if rows_affected_fails F then (Failure RowsAffectedFailed, s)
               else if commit_fails F then (Failure CommitFailed, s)
               else (Success, s\<lparr>db := Some (h\<lparr>soroswap_pairs := t'\<rparr>)\<rparr>)))"

section \<open>Decoding and dispatch\<close>

text \<open>
  \<^verbatim>\<open>encoding/json\<close> is a library of the Go distribution; the program calls
  \<^verbatim>\<open>json.Unmarshal\<close> three times, with three targets. The library is a parameter:
  \<open>valid_json\<close> says whether the bytes are syntactically valid JSON, and the three
  \<open>into_\<close> functions fill the target from valid JSON (\<open>None\<close> when a field has a wrong
  type). \<^verbatim>\<open>Unmarshal\<close> checks the syntax of the whole input before it fills anything.
\<close>

record json_lib =
  valid_json :: "bytes \<Rightarrow> bool"
  into_type :: "bytes \<Rightarrow> string option"
  into_new_pair :: "bytes \<Rightarrow> NewPairEvent option"
  into_sync :: "bytes \<Rightarrow> SyncEvent option"

definition json_Unmarshal :: "json_lib \<Rightarrow> (bytes \<Rightarrow> 'a option) \<Rightarrow> bytes \<Rightarrow> 'a option" where
  "json_Unmarshal J into b = (if valid_json J b then into b else None)"

text \<open>\<^verbatim>\<open>Process\<close> (lines 119-158).\<close>

definition Process :: "json_lib \<Rightarrow> faults \<Rightarrow> Message \<Rightarrow> consumer \<Rightarrow> outcome \<times> consumer" where
  "Process J F msg s =
     (case Payload msg of
        GoBytes jsonBytes \<Rightarrow>
          (case json_Unmarshal J (into_type J) jsonBytes of
             None \<Rightarrow> (Failure DecodeEventType, s)
           | Some ty \<Rightarrow>
               if ty = ''new_pair'' then
                 (case json_Unmarshal J (into_new_pair J) jsonBytes of
                    None \<Rightarrow> (Failure DecodeNewPairEvent, s)
                  | Some newPairEvent \<Rightarrow> handleNewPair F newPairEvent s)
               else if ty = ''sync'' then
                 (case json_Unmarshal J (into_sync J) jsonBytes of
                    None \<Rightarrow> (Failure DecodeSyncEvent, s)
                  | Some syncEvent \<Rightarrow> handleSync F syncEvent s)
               else (Failure (UnknownEventType ty), s))
      | _ \<Rightarrow> (Failure ExpectedBytes, s))"

text \<open>A sequence of \<^verbatim>\<open>Process\<close> calls, each with its own faults.\<close>

fun process_all :: "json_lib \<Rightarrow> (faults \<times> Message) list \<Rightarrow> consumer \<Rightarrow> consumer" where
  "process_all J [] s = s"
| "process_all J ((F, msg) # rest) s = process_all J rest (snd (Process J F msg s))"

section \<open>Lifecycle\<close>

text \<open>\<^verbatim>\<open>New\<close> (lines 42-47).\<close>

definition New :: consumer where
  "New = \<lparr>db = None, dbPath = [], name = ''SaveSoroswapPairsToSQLite'', version = ''1.0.0''\<rparr>"

text \<open>
  What \<^verbatim>\<open>Initialize\<close> meets outside the program: whether each of its four storage calls
  fails, and the table already present in the database file at a path, if any
  (\<^verbatim>\<open>CREATE TABLE IF NOT EXISTS\<close> keeps it).
\<close>

record init_env =
  open_fails :: bool
  ping_fails :: bool
  pragma_fails :: bool
  create_table_fails :: bool
  disk :: "string \<Rightarrow> pair_row list option"

text \<open>
  \<^verbatim>\<open>Initialize\<close> (lines 65-116). The type assertion \<^verbatim>\<open>config["db_path"].(string)\<close> is
  not ok for a missing key (a nil interface) and for a value of another type. The field
  \<^verbatim>\<open>dbPath\<close> is assigned before the database is opened, \<^verbatim>\<open>db\<close> only at the end.
\<close>

definition Initialize :: "(string \<Rightarrow> go_value option) \<Rightarrow> init_env \<Rightarrow> consumer \<Rightarrow> outcome \<times> consumer" where
  "Initialize config E s =
     (let path = (case config ''db_path'' of
                    Some (GoString p) \<Rightarrow> p
                  | _ \<Rightarrow> ''soroswap_pairs.sqlite'');
          s1 = s\<lparr>dbPath := path\<rparr>
      in if open_fails E then (Failure OpenFailed, s1)
         else if ping_fails E then (Failure PingFailed, s1)
         else if pragma_fails E then (Failure PragmaFailed, s1)
         else if create_table_fails E then (Failure CreateTableFailed, s1)
         else (Success,
               s1\<lparr>db := Some \<lparr>dsn = path, closed = False, conn_closes = 0,
                     soroswap_pairs = (case disk E path of None \<Rightarrow> [] | Some t \<Rightarrow> t)\<rparr>\<rparr>))"

text \<open>
  \<^verbatim>\<open>(*sql.DB).Close\<close> of \<^verbatim>\<open>database/sql\<close>: a handle that is already closed returns nil
  at once; otherwise the flag is set, the connections are released, and the error of
  releasing them (if any) is returned.
\<close>

definition sql_DB_Close :: "bool \<Rightarrow> sql_DB \<Rightarrow> outcome \<times> sql_DB" where
  "sql_DB_Close close_fails h =
     (if closed h then (Success, h)
      else (if close_fails then Failure CloseFailed else Success,
            h\<lparr>closed := True, conn_closes := Suc (conn_closes h)\<rparr>))"

text \<open>\<^verbatim>\<open>Close\<close> (lines 269-274). The field \<^verbatim>\<open>db\<close> keeps pointing to the handle.\<close>

definition Close :: "bool \<Rightarrow> consumer \<Rightarrow> outcome \<times> consumer" where
  "Close close_fails s =
     (case db s of
        Some h \<Rightarrow> (case sql_DB_Close close_fails h of (r, h') \<Rightarrow> (r, s\<lparr>db := Some h'\<rparr>))
      | None \<Rightarrow> (Success, s))"

text \<open>Calling \<^verbatim>\<open>Close\<close> several times: the outcomes in order, and the final state.\<close>

fun close_all :: "bool list \<Rightarrow> consumer \<Rightarrow> outcome list \<times> consumer" where
  "close_all [] s = ([], s)"
| "close_all (f # fs) s =
     (case Close f s of (r, s') \<Rightarrow> (case close_all fs s' of (rs, s'') \<Rightarrow> (r # rs, s'')))"

definition releases :: "consumer \<Rightarrow> nat" where
  "releases s = (case db s of None \<Rightarrow> 0 | Some h \<Rightarrow> conn_closes h)"

text \<open>
  The consumer is ready when \<^verbatim>\<open>Initialize\<close> has stored a handle and the handle has not
  been closed.
\<close>

definition ready :: "consumer \<Rightarrow> bool" where
  "ready s \<longleftrightarrow> (case db s of None \<Rightarrow> False | Some h \<Rightarrow> \<not> closed h)"

text \<open>The table satisfies the schema: every row passes the \<^verbatim>\<open>CHECK\<close> constraints and
  the primary key is unique.\<close>

definition schema_ok :: "pair_row list \<Rightarrow> bool" where
  "schema_ok t \<longleftrightarrow> list_all check_constraints t \<and> distinct (addresses t)"

text \<open>The number of rows with a given address.\<close>

definition rows_for :: "string \<Rightarrow> pair_row list \<Rightarrow> nat" where
  "rows_for a t = length (filter (\<lambda>r. pair_address r = a) t)"

section \<open>Example data\<close>

text \<open>
  The scenarios of the specification: pair \<open>P1\<close> created at 2024-01-01T00:00:00Z, then
  synced at 01:00:00Z in ledger 42. Instants are written in seconds since the Unix epoch;
  the zero \<^verbatim>\<open>time.Time\<close> is the first instant of year 1.
\<close>

definition zero_time :: timestamp where
  "zero_time = - 62135596800"

definition example_row :: pair_row where
  "example_row = \<lparr>pair_address = ''P1'', token_0 = ''A'', token_1 = ''B'',
     reserve_0 = ''0'', reserve_1 = ''0'', created_at = 1704067200,
     last_sync_at = None, last_sync_ledger = None\<rparr>"

definition other_row :: pair_row where
  "other_row = \<lparr>pair_address = ''P2'', token_0 = ''C'', token_1 = ''D'',
     reserve_0 = ''7'', reserve_1 = ''9'', created_at = 1704060000,
     last_sync_at = Some 1704063600, last_sync_ledger = Some 40\<rparr>"

definition example_new_pair :: NewPairEvent where
  "example_new_pair = \<lparr>np_Type = ''new_pair'', np_PairAddress = ''P1'', np_Token0 = ''A'',
     np_Token1 = ''B'', np_Timestamp = 1704067200\<rparr>"

definition example_sync :: SyncEvent where
  "example_sync = \<lparr>sy_Type = ''sync'', sy_ContractID = ''P1'', sy_NewReserve0 = ''100'',
     sy_NewReserve1 = ''50'', sy_Timestamp = 1704070800, sy_LedgerSequence = 42\<rparr>"

text \<open>A consumer after a successful \<^verbatim>\<open>Initialize\<close> on a database holding the table \<open>t\<close>.\<close>

definition open_handle :: "pair_row list \<Rightarrow> sql_DB" where
  "open_handle t = \<lparr>dsn = ''soroswap_pairs.sqlite'', closed = False, conn_closes = 0,
     soroswap_pairs = t\<rparr>"

definition consumer_on :: "pair_row list \<Rightarrow> consumer" where
  "consumer_on t = New\<lparr>db := Some (open_handle t), dbPath := ''soroswap_pairs.sqlite''\<rparr>"

text \<open>
  Four payloads and what \<^verbatim>\<open>encoding/json\<close> does on them: the two scenarios of the
  specification, an object with another type tag, and bytes that are not JSON.
\<close>

definition payload_new_pair :: bytes where
  \<open>payload_new_pair =
     ''{"type":"new_pair","pair_address":"P1","token_0":"A","token_1":"B","timestamp":"2024-01-01T00:00:00Z"}''\<close>

definition payload_sync :: bytes where
  \<open>payload_sync =
     ''{"type":"sync","contract_id":"P1","new_reserve_0":"100","new_reserve_1":"50","timestamp":"2024-01-01T01:00:00Z","ledger_sequence":42}''\<close>

definition payload_swap :: bytes where
  \<open>payload_swap = ''{"type":"swap"}''\<close>

definition payload_garbage :: bytes where
  \<open>payload_garbage = ''{"type":''\<close>

definition example_json :: json_lib where
  "example_json = \<lparr>
     valid_json = (\<lambda>b. b = payload_new_pair \<or> b = payload_sync \<or> b = payload_swap),
     into_type = (\<lambda>b. if b = payload_new_pair then Some ''new_pair''
                       else if b = payload_sync then Some ''sync''
                       else if b = payload_swap then Some ''swap'' else None),
     into_new_pair = (\<lambda>b. if b = payload_new_pair then Some example_new_pair else None),
     into_sync = (\<lambda>b. if b = payload_sync then Some example_sync else None)\<rparr>"

definition healthy_env :: init_env where
  "healthy_env = \<lparr>open_fails = False, ping_fails = False, pragma_fails = False,
     create_table_fails = False, disk = (\<lambda>p. None)\<rparr>"

section \<open>Properties of the statements and handlers\<close>

lemma sqlite_length_pos_nonempty: "0 < sqlite_length x \<Longrightarrow> x \<noteq> []"
  by (auto simp: sqlite_length_def)

lemma sqlite_length_pos_iff: "0 < sqlite_length x \<longleftrightarrow> (\<exists>c cs. x = c # cs \<and> c \<noteq> CHR 0x00)"
  by (cases x) (auto simp: sqlite_length_def)

lemma handleNewPair_invalid:
  "np_PairAddress ev = [] \<or> np_Token0 ev = [] \<or> np_Token1 ev = [] \<Longrightarrow>
   handleNewPair F ev s = (Failure InvalidNewPairEvent, s)"
  by (simp add: handleNewPair_def)

lemma insert_pair_present:
  "a \<in> set (addresses t) \<Longrightarrow> insert_pair t a t0 t1 ts = None \<or> insert_pair t a t0 t1 ts = Some (t, 0)"
  by (simp add: insert_pair_def Let_def)

lemma handleNewPair_present_unchanged:
  assumes "np_PairAddress ev \<in> set (addresses (pairs s))"
  shows "snd (handleNewPair F ev s) = s"
proof (cases "db s")
  case None
  then show ?thesis by (simp add: handleNewPair_def)
next
  case (Some h)
  with assms have "np_PairAddress ev \<in> set (addresses (soroswap_pairs h))"
    by (simp add: pairs_def)
  from insert_pair_present[OF this, of "np_Token0 ev" "np_Token1 ev" "np_Timestamp ev"]
  show ?thesis using Some
    by (auto simp: handleNewPair_def)
qed

lemma handleNewPair_present_success:
  assumes "np_PairAddress ev \<in> set (addresses (pairs s))"
    and "ready s" and "storage_ok F"
    and "0 < sqlite_length (np_PairAddress ev)"
    and "0 < sqlite_length (np_Token0 ev)"
    and "0 < sqlite_length (np_Token1 ev)"
  shows "fst (handleNewPair F ev s) = Success"
proof -
  from \<open>ready s\<close> obtain h where h: "db s = Some h" "\<not> closed h"
    by (auto simp: ready_def split: option.splits)
  with assms(1) have "np_PairAddress ev \<in> set (addresses (soroswap_pairs h))"
    by (simp add: pairs_def)
  then have "insert_pair (soroswap_pairs h) (np_PairAddress ev) (np_Token0 ev) (np_Token1 ev)
      (np_Timestamp ev) = Some (soroswap_pairs h, 0)"
    using assms(4-6) by (simp add: insert_pair_def Let_def check_constraints_def)
  then show ?thesis
    using h assms(3-6) sqlite_length_pos_nonempty
    by (auto simp: handleNewPair_def storage_ok_def)
qed


lemma handleNewPair_not_success_unchanged:
  "fst (handleNewPair F ev s) \<noteq> Success \<Longrightarrow> snd (handleNewPair F ev s) = s"
  by (auto simp: handleNewPair_def split: option.splits if_splits)

lemma handleNewPair_success_cases:
  assumes "fst (handleNewPair F ev s) = Success"
  obtains h t' n where "db s = Some h" "\<not> closed h"
    "insert_pair (soroswap_pairs h) (np_PairAddress ev) (np_Token0 ev) (np_Token1 ev)
       (np_Timestamp ev) = Some (t', n)"
    "snd (handleNewPair F ev s) = s\<lparr>db := Some (h\<lparr>soroswap_pairs := t'\<rparr>)\<rparr>"
  using assms by (auto simp: handleNewPair_def split: option.splits if_splits)

lemma insert_pair_Some_cases:
  assumes "insert_pair t a t0 t1 ts = Some (t', n)"
  shows "(a \<in> set (addresses t) \<and> t' = t \<and> n = 0) \<or>
         (a \<notin> set (addresses t) \<and> n = 1 \<and>
          t' = t @ [\<lparr>pair_address = a, token_0 = t0, token_1 = t1, reserve_0 = ''0'',
                      reserve_1 = ''0'', created_at = ts, last_sync_at = None,
                      last_sync_ledger = None\<rparr>])"
  using assms by (auto simp: insert_pair_def Let_def split: if_splits)

lemma insert_pair_Some_check:
  assumes "insert_pair t a t0 t1 ts = Some (t', n)"
  shows "0 < sqlite_length a \<and> 0 < sqlite_length t0 \<and> 0 < sqlite_length t1"
  using assms by (auto simp: insert_pair_def Let_def check_constraints_def split: if_splits)

lemma insert_pair_address_present:
  assumes "insert_pair t a t0 t1 ts = Some (t', n)"
  shows "a \<in> set (addresses t')"
  using insert_pair_Some_cases[OF assms] by (auto simp: addresses_def)

lemma insert_pair_extends:
  assumes "insert_pair t a t0 t1 ts = Some (t', n)"
  shows "take (length t) t' = t"
  using insert_pair_Some_cases[OF assms] by auto

lemma handleNewPair_success_present:
  assumes "fst (handleNewPair F ev s) = Success"
  shows "np_PairAddress ev \<in> set (addresses (pairs (snd (handleNewPair F ev s))))"
  using assms
  by (elim handleNewPair_success_cases) (simp add: pairs_def insert_pair_address_present)

lemma handleNewPair_retry_fails_too:
  assumes "fst (handleNewPair F1 ev s) \<noteq> Success" and "storage_ok F1"
  shows "snd (handleNewPair F2 ev s) = s"
  using assms
  by (auto simp: handleNewPair_def storage_ok_def split: option.splits if_splits)

lemma handleNewPair_twice:
  assumes "storage_ok F1"
  shows "snd (handleNewPair F2 ev (snd (handleNewPair F1 ev s))) = snd (handleNewPair F1 ev s)"
proof (cases "fst (handleNewPair F1 ev s) = Success")
  case True
  from handleNewPair_success_present[OF this] show ?thesis
    by (rule handleNewPair_present_unchanged)
next
  case False
  then have "snd (handleNewPair F1 ev s) = s"
    by (rule handleNewPair_not_success_unchanged)
  moreover have "snd (handleNewPair F2 ev s) = s"
    using False assms by (rule handleNewPair_retry_fails_too)
  ultimately show ?thesis by simp
qed

lemma handleNewPair_absent:
  assumes "ready s" and "storage_ok F"
    and "0 < sqlite_length (np_PairAddress ev)"
    and "0 < sqlite_length (np_Token0 ev)"
    and "0 < sqlite_length (np_Token1 ev)"
    and "np_PairAddress ev \<notin> set (addresses (pairs s))"
  shows "fst (handleNewPair F ev s) = Success"
    and "pairs (snd (handleNewPair F ev s)) =
         pairs s @ [\<lparr>pair_address = np_PairAddress ev, token_0 = np_Token0 ev,
                      token_1 = np_Token1 ev, reserve_0 = ''0'', reserve_1 = ''0'',
                      created_at = np_Timestamp ev, last_sync_at = None,
                      last_sync_ledger = None\<rparr>]"
proof -
  from \<open>ready s\<close> obtain h where h: "db s = Some h" "\<not> closed h"
    by (auto simp: ready_def split: option.splits)
  let ?r = "\<lparr>pair_address = np_PairAddress ev, token_0 = np_Token0 ev,
              token_1 = np_Token1 ev, reserve_0 = ''0'', reserve_1 = ''0'',
              created_at = np_Timestamp ev, last_sync_at = None, last_sync_ledger = None\<rparr>"
  have ins: "insert_pair (soroswap_pairs h) (np_PairAddress ev) (np_Token0 ev) (np_Token1 ev)
      (np_Timestamp ev) = Some (soroswap_pairs h @ [?r], 1)"
    using assms(3-6) h by (simp add: insert_pair_def Let_def check_constraints_def pairs_def)
  have ne: "np_PairAddress ev \<noteq> []" "np_Token0 ev \<noteq> []" "np_Token1 ev \<noteq> []"
    using assms(3-5) by (auto dest: sqlite_length_pos_nonempty)
  have run: "handleNewPair F ev s =
      (Success, s\<lparr>db := Some (h\<lparr>soroswap_pairs := soroswap_pairs h @ [?r]\<rparr>)\<rparr>)"
    using h ne ins \<open>storage_ok F\<close> by (simp add: handleNewPair_def storage_ok_def)
  show "fst (handleNewPair F ev s) = Success" by (simp add: run)
  show "pairs (snd (handleNewPair F ev s)) = pairs s @ [?r]"
    using h by (simp add: run pairs_def)
qed

lemma rows_for_absent: "a \<notin> set (addresses t) \<Longrightarrow> rows_for a t = 0"
  by (induction t) (auto simp: rows_for_def addresses_def)

lemma rows_for_present_distinct:
  "distinct (addresses t) \<Longrightarrow> a \<in> set (addresses t) \<Longrightarrow> rows_for a t = 1"
proof (induction t)
  case Nil
  then show ?case by (simp add: addresses_def)
next
  case (Cons r t)
  show ?case
  proof (cases "pair_address r = a")
    case True
    with Cons.prems have "a \<notin> set (addresses t)" by (auto simp: addresses_def)
    then have "rows_for a t = 0" by (rule rows_for_absent)
    with True show ?thesis by (simp add: rows_for_def)
  next
    case False
    with Cons have "rows_for a t = 1" by (auto simp: addresses_def)
    with False show ?thesis by (simp add: rows_for_def)
  qed
qed

lemma rows_for_append: "rows_for a (t @ u) = rows_for a t + rows_for a u"
  by (simp add: rows_for_def)


lemma handleSync_absent_unchanged:
  assumes "sy_ContractID ev \<notin> set (addresses (pairs s))"
  shows "snd (handleSync F ev s) = s"
  using assms
  by (auto simp: handleSync_def select_exists_def pairs_def split: option.splits prod.splits)

lemma handleSync_absent_success:
  assumes "sy_ContractID ev \<notin> set (addresses (pairs s))"
    and "ready s" and "\<not> begin_tx_fails F" and "\<not> query_fails F"
  shows "fst (handleSync F ev s) = Success"
  using assms
  by (auto simp: handleSync_def select_exists_def pairs_def ready_def split: option.splits)

lemma handleSync_present:
  assumes "db s = Some h" and "\<not> closed h" and "storage_ok F"
    and "sy_ContractID ev \<in> set (addresses (soroswap_pairs h))"
  shows "handleSync F ev s =
     (Success, s\<lparr>db := Some (h\<lparr>soroswap_pairs :=
        map (\<lambda>r. if pair_address r = sy_ContractID ev
                  then set_reserves (sy_NewReserve0 ev) (sy_NewReserve1 ev) (sy_Timestamp ev)
                         (sy_LedgerSequence ev) r
                  else r) (soroswap_pairs h)\<rparr>)\<rparr>)"
  using assms
  by (simp add: handleSync_def select_exists_def storage_ok_def update_reserves_def)

lemma handleSync_state_cases:
  "snd (handleSync F ev s) = s \<or>
   (\<exists>h. db s = Some h \<and>
      snd (handleSync F ev s) = s\<lparr>db := Some (h\<lparr>soroswap_pairs :=
        fst (update_reserves (soroswap_pairs h) (sy_NewReserve0 ev) (sy_NewReserve1 ev)
               (sy_Timestamp ev) (sy_LedgerSequence ev) (sy_ContractID ev))\<rparr>)\<rparr>)"
  by (auto simp: handleSync_def split: option.splits prod.splits)

lemma addresses_update_reserves:
  "addresses (fst (update_reserves t r0 r1 ts seq a)) = addresses t"
  by (simp add: update_reserves_def addresses_def set_reserves_def comp_def)

lemma length_update_reserves:
  "length (fst (update_reserves t r0 r1 ts seq a)) = length t"
  by (simp add: update_reserves_def)

lemma handleSync_addresses:
  "addresses (pairs (snd (handleSync F ev s))) = addresses (pairs s)"
  using handleSync_state_cases[of F ev s]
  by (auto simp: pairs_def addresses_update_reserves)

lemma handleNewPair_extends:
  "take (length (pairs s)) (pairs (snd (handleNewPair F ev s))) = pairs s"
proof (cases "fst (handleNewPair F ev s) = Success")
  case True
  then show ?thesis
    by (elim handleNewPair_success_cases) (simp add: pairs_def insert_pair_extends)
next
  case False
  then show ?thesis by (simp add: handleNewPair_not_success_unchanged)
qed

lemma Process_cases:
  "snd (Process J F msg s) = s \<or>
   (\<exists>ev. snd (Process J F msg s) = snd (handleNewPair F ev s)) \<or>
   (\<exists>ev. snd (Process J F msg s) = snd (handleSync F ev s))"
  by (auto simp: Process_def split: go_value.splits option.splits)

lemma Process_addresses_extend:
  "take (length (pairs s)) (addresses (pairs (snd (Process J F msg s)))) = addresses (pairs s)"
proof -
  have np: "take (length (pairs s)) (addresses (pairs (snd (handleNewPair F ev s)))) =
      addresses (pairs s)" for ev
    using handleNewPair_extends[of s F ev]
    by (simp add: addresses_def take_map)
  have sy: "take (length (pairs s)) (addresses (pairs (snd (handleSync F ev s)))) =
      addresses (pairs s)" for ev
    by (simp add: handleSync_addresses) (simp add: addresses_def)
  show ?thesis
    using Process_cases[of J F msg s] np sy by (auto simp: addresses_def)
qed

lemma take_eq_imp_subset: "take n ys = xs \<Longrightarrow> set xs \<subseteq> set ys"
  by (auto dest: in_set_takeD)

lemma Process_keeps_addresses:
  "set (addresses (pairs s)) \<subseteq> set (addresses (pairs (snd (Process J F msg s))))"
  using Process_addresses_extend by (rule take_eq_imp_subset)

lemma process_all_keeps_addresses:
  "set (addresses (pairs s)) \<subseteq> set (addresses (pairs (process_all J steps s)))"
proof (induction steps arbitrary: s)
  case Nil
  show ?case by simp
next
  case (Cons step steps)
  obtain F msg where step: "step = (F, msg)" by (cases step)
  have "set (addresses (pairs s)) \<subseteq> set (addresses (pairs (snd (Process J F msg s))))"
    by (rule Process_keeps_addresses)
  also have "\<dots> \<subseteq> set (addresses (pairs (process_all J steps (snd (Process J F msg s)))))"
    by (rule Cons.IH)
  finally show ?case by (simp add: step)
qed

lemma Process_length_mono:
  "length (pairs s) \<le> length (pairs (snd (Process J F msg s)))"
proof -
  have "length (take (length (pairs s)) (addresses (pairs (snd (Process J F msg s))))) =
      length (addresses (pairs s))"
    by (simp only: Process_addresses_extend)
  then show ?thesis by (simp add: addresses_def)
qed


lemma schema_ok_insert_pair:
  assumes "schema_ok t" and "insert_pair t a t0 t1 ts = Some (t', n)"
  shows "schema_ok t'"
  using insert_pair_Some_cases[OF assms(2)] insert_pair_Some_check[OF assms(2)] assms(1)
  by (auto simp: schema_ok_def check_constraints_def addresses_def)

lemma schema_ok_update_reserves:
  assumes "schema_ok t"
  shows "schema_ok (fst (update_reserves t r0 r1 ts seq a))"
proof -
  have "list_all check_constraints (fst (update_reserves t r0 r1 ts seq a))"
    using assms
    by (auto simp: schema_ok_def update_reserves_def list_all_iff check_constraints_def
        set_reserves_def)
  then show ?thesis
    using assms by (simp add: schema_ok_def addresses_update_reserves)
qed

lemma handleNewPair_schema_ok:
  assumes "schema_ok (pairs s)"
  shows "schema_ok (pairs (snd (handleNewPair F ev s)))"
proof (cases "fst (handleNewPair F ev s) = Success")
  case True
  then show ?thesis
    using assms
    by (elim handleNewPair_success_cases) (auto simp: pairs_def intro: schema_ok_insert_pair)
next
  case False
  then show ?thesis using assms by (simp add: handleNewPair_not_success_unchanged)
qed

lemma handleSync_schema_ok:
  assumes "schema_ok (pairs s)"
  shows "schema_ok (pairs (snd (handleSync F ev s)))"
  using handleSync_state_cases[of F ev s] assms
  by (auto simp: pairs_def schema_ok_update_reserves)

lemma Process_schema_ok:
  assumes "schema_ok (pairs s)"
  shows "schema_ok (pairs (snd (Process J F msg s)))"
  using Process_cases[of J F msg s] assms
  by (auto simp: handleNewPair_schema_ok handleSync_schema_ok)

lemma Initialize_fresh_schema_ok:
  assumes "disk E = (\<lambda>p. None)"
  shows "schema_ok (pairs (snd (Initialize config E New)))"
  using assms
  by (simp add: Initialize_def Let_def pairs_def New_def schema_ok_def addresses_def)

lemma schema_ok_no_empty_address:
  assumes "list_all check_constraints t"
  shows "[] \<notin> set (addresses t)"
  using assms by (auto simp: list_all_iff check_constraints_def addresses_def sqlite_length_def)


lemma Close_nil: "db s = None \<Longrightarrow> Close f s = (Success, s)"
  by (simp add: Close_def)

lemma Close_not_Panic: "fst (Close f s) \<noteq> Panic"
  by (auto simp: Close_def sql_DB_Close_def split: option.splits)

lemma Close_again:
  "Close f2 (snd (Close f1 s)) = (Success, snd (Close f1 s))"
  by (auto simp: Close_def sql_DB_Close_def split: option.splits)

lemma Close_closed:
  "db s = None \<or> (\<exists>h. db s = Some h \<and> closed h) \<Longrightarrow> Close f s = (Success, s)"
  by (auto simp: Close_def sql_DB_Close_def)

lemma Close_post:
  "db (snd (Close f s)) = None \<or> (\<exists>h. db (snd (Close f s)) = Some h \<and> closed h)"
  by (auto simp: Close_def sql_DB_Close_def split: option.splits)

lemma Close_releases: "releases (snd (Close f s)) \<le> Suc (releases s)"
  by (auto simp: Close_def sql_DB_Close_def releases_def split: option.splits)

lemma close_all_closed:
  assumes "db s = None \<or> (\<exists>h. db s = Some h \<and> closed h)"
  shows "close_all fs s = (replicate (length fs) Success, s)"
  using assms
proof (induction fs)
  case Nil
  show ?case by simp
next
  case (Cons f fs)
  then show ?case by (simp add: Close_closed)
qed

lemma close_all_releases: "releases (snd (close_all fs s)) \<le> Suc (releases s)"
proof (cases fs)
  case Nil
  then show ?thesis by simp
next
  case (Cons f fs')
  have "close_all fs' (snd (Close f s)) = (replicate (length fs') Success, snd (Close f s))"
    by (rule close_all_closed) (rule Close_post)
  then have "snd (close_all fs s) = snd (Close f s)"
    by (cases "Close f s") (simp add: Cons)
  then show ?thesis by (simp add: Close_releases)
qed

lemma close_all_no_Panic: "Panic \<notin> set (fst (close_all fs s))"
proof (induction fs arbitrary: s)
  case Nil
  show ?case by simp
next
  case (Cons f fs)
  have "fst (Close f s) \<noteq> Panic" by (rule Close_not_Panic)
  then show ?case using Cons.IH[of "snd (Close f s)"]
    by (auto split: prod.splits)
qed

lemma Initialize_default_path:
  assumes "config ''db_path'' = None \<or> (\<exists>v. config ''db_path'' = Some v \<and> (\<forall>p. v \<noteq> GoString p))"
  shows "dbPath (snd (Initialize config E s)) = ''soroswap_pairs.sqlite''"
  using assms
  by (auto simp: Initialize_def Let_def split: option.splits go_value.splits)

lemma Initialize_outcome:
  "fst (Initialize config E s) =
     (if open_fails E then Failure OpenFailed
      else if ping_fails E then Failure PingFailed
      else if pragma_fails E then Failure PragmaFailed
      else if create_table_fails E then Failure CreateTableFailed
      else Success)"
  by (simp add: Initialize_def Let_def)

lemma Initialize_handle:
  assumes "fst (Initialize config E s) = Success"
  shows "\<exists>h. db (snd (Initialize config E s)) = Some h \<and>
             dsn h = dbPath (snd (Initialize config E s)) \<and> \<not> closed h"
  using assms by (auto simp: Initialize_def Let_def split: if_splits)


lemma handleNewPair_ready: "ready (snd (handleNewPair F ev s)) = ready s"
proof (cases "fst (handleNewPair F ev s) = Success")
  case True
  then show ?thesis
    by (elim handleNewPair_success_cases) (simp add: ready_def)
next
  case False
  then show ?thesis by (simp add: handleNewPair_not_success_unchanged)
qed

lemma handleNewPair_valid_success:
  assumes "ready s" and "storage_ok F"
    and "0 < sqlite_length (np_PairAddress ev)"
    and "0 < sqlite_length (np_Token0 ev)"
    and "0 < sqlite_length (np_Token1 ev)"
  shows "fst (handleNewPair F ev s) = Success"
proof (cases "np_PairAddress ev \<in> set (addresses (pairs s))")
  case True
  then show ?thesis using assms by (rule handleNewPair_present_success)
next
  case False
  with assms show ?thesis by (rule handleNewPair_absent(1))
qed

lemma handleSync_ready_success:
  assumes "ready s" and "storage_ok F"
  shows "fst (handleSync F ev s) = Success"
  using assms
  by (auto simp: handleSync_def ready_def storage_ok_def split: option.splits prod.splits)

lemma Process_changes_only_by_events:
  assumes "pairs (snd (Process J F msg s)) \<noteq> pairs s"
  shows "\<exists>b. Payload msg = GoBytes b \<and>
           (json_Unmarshal J (into_type J) b = Some ''new_pair'' \<or>
            json_Unmarshal J (into_type J) b = Some ''sync'')"
  using assms
  by (auto simp: Process_def split: go_value.splits option.splits if_splits)

lemmas model_defs =
  handleNewPair_def handleSync_def Process_def json_Unmarshal_def insert_pair_def
  select_exists_def update_reserves_def set_reserves_def check_constraints_def
  sqlite_length_def pairs_def addresses_def rows_for_def ready_def storage_ok_def
  schema_ok_def Initialize_def Close_def sql_DB_Close_def releases_def New_def Let_def

lemmas example_defs =
  no_faults_def zero_time_def example_row_def other_row_def example_new_pair_def
  example_sync_def open_handle_def consumer_on_def payload_new_pair_def payload_sync_def
  payload_swap_def payload_garbage_def example_json_def healthy_env_def

section \<open>Claims\<close>

text \<open>
  C5. A \<^verbatim>\<open>NewPairEvent\<close> whose \<^verbatim>\<open>pair_address\<close>, \<^verbatim>\<open>token_0\<close> or \<^verbatim>\<open>token_1\<close> is the
  empty string is rejected by \<^verbatim>\<open>handleNewPair\<close> with the validation error, and the
  consumer and its table are unchanged: the check comes before the nil handle is touched
  and before any storage call, so this holds for every state and every fault.
\<close>

theorem handleNewPair_rejects_empty_field:
  assumes "np_PairAddress ev = [] \<or> np_Token0 ev = [] \<or> np_Token1 ev = []"
  shows "handleNewPair F ev s = (Failure InvalidNewPairEvent, s)"
  using assms by (rule handleNewPair_invalid)

text \<open>The three empty fields, one at a time.\<close>

theorem handleNewPair_rejects_empty_field_witness:
  "handleNewPair no_faults (example_new_pair\<lparr>np_Token0 := []\<rparr>) (consumer_on [other_row]) =
     (Failure InvalidNewPairEvent, consumer_on [other_row]) \<and>
   handleNewPair no_faults (example_new_pair\<lparr>np_Token1 := []\<rparr>) (consumer_on [other_row]) =
     (Failure InvalidNewPairEvent, consumer_on [other_row]) \<and>
   handleNewPair no_faults (example_new_pair\<lparr>np_PairAddress := []\<rparr>) New =
     (Failure InvalidNewPairEvent, New)"
  using handleNewPair_rejects_empty_field
          [of "example_new_pair\<lparr>np_Token0 := []\<rparr>" no_faults "consumer_on [other_row]"]
        handleNewPair_rejects_empty_field
          [of "example_new_pair\<lparr>np_Token1 := []\<rparr>" no_faults "consumer_on [other_row]"]
        handleNewPair_rejects_empty_field
          [of "example_new_pair\<lparr>np_PairAddress := []\<rparr>" no_faults New]
  by (simp add: example_new_pair_def)

text \<open>
  C3. A \<^verbatim>\<open>SyncEvent\<close> whose \<^verbatim>\<open>contract_id\<close> matches no row's \<^verbatim>\<open>pair_address\<close> leaves
  the consumer and its table unchanged, whatever the storage calls do; when the consumer
  is ready and neither the begin nor the existence query fails, \<^verbatim>\<open>handleSync\<close> returns
  nil.
\<close>

theorem handleSync_unknown_pair:
  assumes "sy_ContractID ev \<notin> set (addresses (pairs s))"
  shows "snd (handleSync F ev s) = s \<and>
         (ready s \<and> \<not> begin_tx_fails F \<and> \<not> query_fails F \<longrightarrow>
            handleSync F ev s = (Success, s))"
proof -
  have unchanged: "snd (handleSync F ev s) = s"
    using assms by (rule handleSync_absent_unchanged)
  have "fst (handleSync F ev s) = Success"
    if "ready s" "\<not> begin_tx_fails F" "\<not> query_fails F"
    using assms that by (rule handleSync_absent_success)
  with unchanged show ?thesis by (auto simp: prod_eq_iff)
qed

text \<open>The scenario of the specification: a sync for \<open>UNKNOWN\<close>.\<close>

theorem handleSync_unknown_pair_witness:
  "sy_ContractID (example_sync\<lparr>sy_ContractID := ''UNKNOWN''\<rparr>)
     \<notin> set (addresses (pairs (consumer_on [example_row]))) \<and>
   ready (consumer_on [example_row]) \<and>
   handleSync no_faults (example_sync\<lparr>sy_ContractID := ''UNKNOWN''\<rparr>) (consumer_on [example_row]) =
     (Success, consumer_on [example_row])"
  using handleSync_unknown_pair
          [of "example_sync\<lparr>sy_ContractID := ''UNKNOWN''\<rparr>" "consumer_on [example_row]" no_faults]
  by (simp add: example_defs pairs_def addresses_def ready_def New_def)

subsection \<open>Sync events\<close>

text \<open>
  C2. For a \<^verbatim>\<open>SyncEvent\<close> whose \<^verbatim>\<open>contract_id\<close> is the \<^verbatim>\<open>pair_address\<close> of a stored row,
  on a ready consumer and in a run where no storage call fails, \<^verbatim>\<open>handleSync\<close> returns
  nil; the table keeps its length; in every row with that address \<^verbatim>\<open>reserve_0\<close>,
  \<^verbatim>\<open>reserve_1\<close>, \<^verbatim>\<open>last_sync_at\<close> and \<^verbatim>\<open>last_sync_ledger\<close> are the event's
  \<^verbatim>\<open>new_reserve_0\<close>, \<^verbatim>\<open>new_reserve_1\<close>, \<^verbatim>\<open>timestamp\<close> and \<^verbatim>\<open>ledger_sequence\<close>, while
  \<^verbatim>\<open>pair_address\<close>, \<^verbatim>\<open>token_0\<close>, \<^verbatim>\<open>token_1\<close> and \<^verbatim>\<open>created_at\<close> are the old ones; every
  other row is the old row; nothing else of the consumer changes.
\<close>

theorem handleSync_updates_reserves:
  fixes F :: faults and ev :: SyncEvent and s :: consumer
  defines "s' \<equiv> snd (handleSync F ev s)"
  assumes "ready s" and "storage_ok F"
    and "sy_ContractID ev \<in> set (addresses (pairs s))"
  shows "fst (handleSync F ev s) = Success \<and>
         length (pairs s') = length (pairs s) \<and>
         (\<forall>i < length (pairs s).
            (pair_address (pairs s ! i) = sy_ContractID ev \<longrightarrow>
               reserve_0 (pairs s' ! i) = sy_NewReserve0 ev \<and>
               reserve_1 (pairs s' ! i) = sy_NewReserve1 ev \<and>
               last_sync_at (pairs s' ! i) = Some (sy_Timestamp ev) \<and>
               last_sync_ledger (pairs s' ! i) = Some (sy_LedgerSequence ev) \<and>
               pair_address (pairs s' ! i) = pair_address (pairs s ! i) \<and>
               token_0 (pairs s' ! i) = token_0 (pairs s ! i) \<and>
               token_1 (pairs s' ! i) = token_1 (pairs s ! i) \<and>
               created_at (pairs s' ! i) = created_at (pairs s ! i)) \<and>
            (pair_address (pairs s ! i) \<noteq> sy_ContractID ev \<longrightarrow>
               pairs s' ! i = pairs s ! i)) \<and>
         (\<exists>h. db s = Some h \<and> s' = s\<lparr>db := Some (h\<lparr>soroswap_pairs := pairs s'\<rparr>)\<rparr>)"
proof -
  from \<open>ready s\<close> obtain h where h: "db s = Some h" "\<not> closed h"
    by (auto simp: ready_def split: option.splits)
  with assms(4) have present: "sy_ContractID ev \<in> set (addresses (soroswap_pairs h))"
    by (simp add: pairs_def)
  let ?f = "\<lambda>r. if pair_address r = sy_ContractID ev
                 then set_reserves (sy_NewReserve0 ev) (sy_NewReserve1 ev) (sy_Timestamp ev)
                        (sy_LedgerSequence ev) r
                 else r"
  have run: "handleSync F ev s =
      (Success, s\<lparr>db := Some (h\<lparr>soroswap_pairs := map ?f (soroswap_pairs h)\<rparr>)\<rparr>)"
    using h \<open>storage_ok F\<close> present by (rule handleSync_present)
  have old: "pairs s = soroswap_pairs h"
    using h by (simp add: pairs_def)
  have new: "pairs s' = map ?f (soroswap_pairs h)"
    by (simp add: s'_def run pairs_def)
  have state: "s' = s\<lparr>db := Some (h\<lparr>soroswap_pairs := pairs s'\<rparr>)\<rparr>"
    unfolding new by (simp add: s'_def run)
  have ok: "fst (handleSync F ev s) = Success"
    by (simp add: run)
  have len: "length (pairs s') = length (pairs s)"
    by (simp add: old new)
  have rows: "\<forall>i < length (pairs s).
            (pair_address (pairs s ! i) = sy_ContractID ev \<longrightarrow>
               reserve_0 (pairs s' ! i) = sy_NewReserve0 ev \<and>
               reserve_1 (pairs s' ! i) = sy_NewReserve1 ev \<and>
               last_sync_at (pairs s' ! i) = Some (sy_Timestamp ev) \<and>
               last_sync_ledger (pairs s' ! i) = Some (sy_LedgerSequence ev) \<and>
               pair_address (pairs s' ! i) = pair_address (pairs s ! i) \<and>
               token_0 (pairs s' ! i) = token_0 (pairs s ! i) \<and>
               token_1 (pairs s' ! i) = token_1 (pairs s ! i) \<and>
               created_at (pairs s' ! i) = created_at (pairs s ! i)) \<and>
            (pair_address (pairs s ! i) \<noteq> sy_ContractID ev \<longrightarrow>
               pairs s' ! i = pairs s ! i)"
    by (simp add: old new set_reserves_def)
  from ok len rows h(1) state show ?thesis by blast
qed

text \<open>
  The second scenario of the specification, with a second pair in the table.
\<close>

theorem handleSync_updates_reserves_witness:
  "ready (consumer_on [other_row, example_row]) \<and> storage_ok no_faults \<and>
   sy_ContractID example_sync \<in> set (addresses (pairs (consumer_on [other_row, example_row]))) \<and>
   handleSync no_faults example_sync (consumer_on [other_row, example_row]) =
     (Success, consumer_on [other_row,
        \<lparr>pair_address = ''P1'', token_0 = ''A'', token_1 = ''B'', reserve_0 = ''100'',
         reserve_1 = ''50'', created_at = 1704067200, last_sync_at = Some 1704070800,
         last_sync_ledger = Some 42\<rparr>])"
proof -
  have hyps: "ready (consumer_on [other_row, example_row])" "storage_ok no_faults"
    "sy_ContractID example_sync \<in> set (addresses (pairs (consumer_on [other_row, example_row])))"
    by (simp_all add: example_defs model_defs)
  note fact = handleSync_updates_reserves[OF hyps]
  have run: "handleSync no_faults example_sync (consumer_on [other_row, example_row]) =
     (Success, consumer_on [other_row,
        \<lparr>pair_address = ''P1'', token_0 = ''A'', token_1 = ''B'', reserve_0 = ''100'',
         reserve_1 = ''50'', created_at = 1704067200, last_sync_at = Some 1704070800,
         last_sync_ledger = Some 42\<rparr>])"
    by (simp add: example_defs model_defs)
  show ?thesis using hyps fact run by simp
qed

subsection \<open>New pair events\<close>

text \<open>
  An event whose three fields have positive SQLite length (they pass the validation and
  the \<^verbatim>\<open>CHECK\<close> constraints) and whose \<^verbatim>\<open>pair_address\<close> is not stored yet: on a ready
  consumer, in a run where no storage call fails, \<^verbatim>\<open>handleNewPair\<close> returns nil and
  appends exactly one row, with the event's address and tokens, both reserves \<open>"0"\<close>,
  \<^verbatim>\<open>created_at\<close> the event's timestamp, and \<^verbatim>\<open>last_sync_at\<close> and \<^verbatim>\<open>last_sync_ledger\<close>
  null. Afterwards the table holds one row for the address.
\<close>

lemma handleNewPair_inserts_new_pair:
  assumes "ready s" and "storage_ok F"
    and "0 < sqlite_length (np_PairAddress ev)"
    and "0 < sqlite_length (np_Token0 ev)"
    and "0 < sqlite_length (np_Token1 ev)"
    and "np_PairAddress ev \<notin> set (addresses (pairs s))"
  shows "fst (handleNewPair F ev s) = Success \<and>
         pairs (snd (handleNewPair F ev s)) =
           pairs s @ [\<lparr>pair_address = np_PairAddress ev, token_0 = np_Token0 ev,
                        token_1 = np_Token1 ev, reserve_0 = ''0'', reserve_1 = ''0'',
                        created_at = np_Timestamp ev, last_sync_at = None,
                        last_sync_ledger = None\<rparr>] \<and>
         rows_for (np_PairAddress ev) (pairs (snd (handleNewPair F ev s))) = 1"
proof -
  note ins = handleNewPair_absent[OF assms]
  have "rows_for (np_PairAddress ev) (pairs s) = 0"
    using assms(6) by (rule rows_for_absent)
  then have "rows_for (np_PairAddress ev) (pairs (snd (handleNewPair F ev s))) = 1"
    by (simp add: ins(2) rows_for_append) (simp add: rows_for_def)
  with ins show ?thesis by simp
qed

text \<open>
  The first scenario of the specification, with another pair already stored.
\<close>

lemma handleNewPair_inserts_new_pair_example:
  "ready (consumer_on [other_row]) \<and> storage_ok no_faults \<and>
   0 < sqlite_length (np_PairAddress example_new_pair) \<and>
   0 < sqlite_length (np_Token0 example_new_pair) \<and>
   0 < sqlite_length (np_Token1 example_new_pair) \<and>
   np_PairAddress example_new_pair \<notin> set (addresses (pairs (consumer_on [other_row]))) \<and>
   handleNewPair no_faults example_new_pair (consumer_on [other_row]) =
     (Success, consumer_on [other_row, example_row]) \<and>
   rows_for ''P1'' (pairs (consumer_on [other_row, example_row])) = 1"
proof -
  have hyps: "ready (consumer_on [other_row])" "storage_ok no_faults"
    "0 < sqlite_length (np_PairAddress example_new_pair)"
    "0 < sqlite_length (np_Token0 example_new_pair)"
    "0 < sqlite_length (np_Token1 example_new_pair)"
    "np_PairAddress example_new_pair \<notin> set (addresses (pairs (consumer_on [other_row])))"
    by (simp_all add: example_defs model_defs)
  note fact = handleNewPair_inserts_new_pair[OF hyps]
  have run: "handleNewPair no_faults example_new_pair (consumer_on [other_row]) =
     (Success, consumer_on [other_row, example_row])"
    by (simp add: example_defs model_defs)
  have one: "rows_for ''P1'' (pairs (consumer_on [other_row, example_row])) = 1"
    by (simp add: example_defs model_defs)
  from fact hyps run one show ?thesis by blast
qed

text \<open>
  C4. Every valid \<^verbatim>\<open>NewPairEvent\<close> (non-empty \<^verbatim>\<open>pair_address\<close>, \<^verbatim>\<open>token_0\<close>, \<^verbatim>\<open>token_1\<close>)
  whose address is not stored yet should insert exactly one row. The code does not do this
  for every such event. The validation of \<^verbatim>\<open>handleNewPair\<close> accepts every non-empty
  string, while the \<^verbatim>\<open>CHECK (length(...) > 0)\<close> constraints, which the schema's comment
  says are there to prevent empty strings, also refuse a non-empty string that starts with
  a NUL character. Here the address is a NUL byte followed by \<open>P1\<close>: it is not empty and
  not stored, the tokens are not empty, the consumer is ready and no storage call fails;
  the insert is refused, the handler returns the insert error, and the table stays empty.
\<close>

theorem handleNewPair_nul_address_rejected:
  "np_PairAddress (example_new_pair\<lparr>np_PairAddress := [CHR 0x00, CHR ''P'', CHR ''1'']\<rparr>) \<noteq> [] \<and>
   np_Token0 (example_new_pair\<lparr>np_PairAddress := [CHR 0x00, CHR ''P'', CHR ''1'']\<rparr>) \<noteq> [] \<and>
   np_Token1 (example_new_pair\<lparr>np_PairAddress := [CHR 0x00, CHR ''P'', CHR ''1'']\<rparr>) \<noteq> [] \<and>
   np_PairAddress (example_new_pair\<lparr>np_PairAddress := [CHR 0x00, CHR ''P'', CHR ''1'']\<rparr>)
     \<notin> set (addresses (pairs (consumer_on []))) \<and>
   handleNewPair no_faults (example_new_pair\<lparr>np_PairAddress := [CHR 0x00, CHR ''P'', CHR ''1'']\<rparr>)
     (consumer_on []) = (Failure InsertPairFailed, consumer_on []) \<and>
   ready (consumer_on []) \<and> storage_ok no_faults \<and> pairs (consumer_on []) = []"
  by (simp add: example_defs model_defs)

text \<open>
  C1, amended. For every \<^verbatim>\<open>NewPairEvent\<close> whose \<^verbatim>\<open>pair_address\<close> is already stored,
  \<^verbatim>\<open>handleNewPair\<close> leaves the consumer and its table unchanged, whatever the event's
  other fields and whatever the storage calls do, and a table with unique addresses still
  holds exactly one row for that address. The call returns nil when, in addition, the
  event's three fields have positive SQLite length (they pass the validation and the
  \<^verbatim>\<open>CHECK\<close> constraints), the consumer is ready and no storage call fails. Processing an
  event a second time, after a first call in which no storage call failed, changes
  nothing; for such a valid event on a table that satisfies the schema, both calls return
  nil and the table then holds one row for the address.
\<close>

theorem handleNewPair_existing_address:
  fixes F F1 F2 :: faults and ev :: NewPairEvent and s :: consumer
  defines "once \<equiv> snd (handleNewPair F1 ev s)"
  shows "(np_PairAddress ev \<in> set (addresses (pairs s)) \<longrightarrow>
            snd (handleNewPair F ev s) = s \<and>
            (distinct (addresses (pairs s)) \<longrightarrow>
               rows_for (np_PairAddress ev) (pairs (snd (handleNewPair F ev s))) = 1) \<and>
            (ready s \<and> storage_ok F \<and> 0 < sqlite_length (np_PairAddress ev) \<and>
             0 < sqlite_length (np_Token0 ev) \<and> 0 < sqlite_length (np_Token1 ev) \<longrightarrow>
               fst (handleNewPair F ev s) = Success)) \<and>
         (storage_ok F1 \<longrightarrow> snd (handleNewPair F2 ev once) = once) \<and>
         (ready s \<and> schema_ok (pairs s) \<and> storage_ok F1 \<and> storage_ok F2 \<and>
          0 < sqlite_length (np_PairAddress ev) \<and>
          0 < sqlite_length (np_Token0 ev) \<and> 0 < sqlite_length (np_Token1 ev) \<longrightarrow>
            fst (handleNewPair F1 ev s) = Success \<and>
            handleNewPair F2 ev once = (Success, once) \<and>
            rows_for (np_PairAddress ev) (pairs once) = 1)"
proof -
  have existing: "snd (handleNewPair F ev s) = s \<and>
      (distinct (addresses (pairs s)) \<longrightarrow>
         rows_for (np_PairAddress ev) (pairs (snd (handleNewPair F ev s))) = 1) \<and>
      (ready s \<and> storage_ok F \<and> 0 < sqlite_length (np_PairAddress ev) \<and>
       0 < sqlite_length (np_Token0 ev) \<and> 0 < sqlite_length (np_Token1 ev) \<longrightarrow>
         fst (handleNewPair F ev s) = Success)"
    if present: "np_PairAddress ev \<in> set (addresses (pairs s))"
  proof -
    have same: "snd (handleNewPair F ev s) = s"
      using present by (rule handleNewPair_present_unchanged)
    have "rows_for (np_PairAddress ev) (pairs s) = 1" if "distinct (addresses (pairs s))"
      using that present by (rule rows_for_present_distinct)
    moreover have "fst (handleNewPair F ev s) = Success"
      if "ready s" "storage_ok F" "0 < sqlite_length (np_PairAddress ev)"
        "0 < sqlite_length (np_Token0 ev)" "0 < sqlite_length (np_Token1 ev)"
      using present that by (rule handleNewPair_present_success)
    ultimately show ?thesis using same by simp
  qed
  have twice: "snd (handleNewPair F2 ev once) = once" if "storage_ok F1"
    unfolding once_def using that by (rule handleNewPair_twice)
  have valid: "fst (handleNewPair F1 ev s) = Success \<and>
      handleNewPair F2 ev once = (Success, once) \<and>
      rows_for (np_PairAddress ev) (pairs once) = 1"
    if "ready s" "schema_ok (pairs s)" "storage_ok F1" "storage_ok F2"
      "0 < sqlite_length (np_PairAddress ev)"
      "0 < sqlite_length (np_Token0 ev)" "0 < sqlite_length (np_Token1 ev)"
  proof -
    have first: "fst (handleNewPair F1 ev s) = Success"
      using that(1,3,5-7) by (rule handleNewPair_valid_success)
    have "ready once"
      using that(1) by (simp add: once_def handleNewPair_ready)
    then have second: "fst (handleNewPair F2 ev once) = Success"
      using that(4-7) by (rule handleNewPair_valid_success)
    have present: "np_PairAddress ev \<in> set (addresses (pairs once))"
      unfolding once_def using first by (rule handleNewPair_success_present)
    have "schema_ok (pairs once)"
      unfolding once_def using that(2) by (rule handleNewPair_schema_ok)
    then have "distinct (addresses (pairs once))"
      by (simp add: schema_ok_def)
    then have one: "rows_for (np_PairAddress ev) (pairs once) = 1"
      using present by (rule rows_for_present_distinct)
    from twice[OF that(3)] second have "handleNewPair F2 ev once = (Success, once)"
      by (simp add: prod_eq_iff)
    with first one show ?thesis by simp
  qed
  from existing twice valid show ?thesis by blast
qed

text \<open>
  The pair \<open>P1\<close> is stored; the same event again, and an event with other tokens and
  another timestamp, leave the row as it is.
\<close>

theorem handleNewPair_existing_address_witness:
  "np_PairAddress example_new_pair \<in> set (addresses (pairs (consumer_on [example_row]))) \<and>
   distinct (addresses (pairs (consumer_on [example_row]))) \<and>
   ready (consumer_on [example_row]) \<and> schema_ok (pairs (consumer_on [example_row])) \<and>
   storage_ok no_faults \<and>
   0 < sqlite_length (np_PairAddress example_new_pair) \<and>
   0 < sqlite_length (np_Token0 example_new_pair) \<and>
   0 < sqlite_length (np_Token1 example_new_pair) \<and>
   handleNewPair no_faults (example_new_pair\<lparr>np_Token0 := ''X'', np_Timestamp := 0\<rparr>)
     (consumer_on [example_row]) = (Success, consumer_on [example_row]) \<and>
   handleNewPair no_faults example_new_pair (consumer_on []) = (Success, consumer_on [example_row]) \<and>
   handleNewPair no_faults example_new_pair (consumer_on [example_row]) =
     (Success, consumer_on [example_row]) \<and>
   rows_for ''P1'' (pairs (consumer_on [example_row])) = 1"
proof -
  note fact = handleNewPair_existing_address
      [of example_new_pair "consumer_on [example_row]" no_faults no_faults no_faults]
  have hyps: "np_PairAddress example_new_pair \<in> set (addresses (pairs (consumer_on [example_row])))"
    "distinct (addresses (pairs (consumer_on [example_row])))"
    "ready (consumer_on [example_row])" "schema_ok (pairs (consumer_on [example_row]))"
    "storage_ok no_faults"
    "0 < sqlite_length (np_PairAddress example_new_pair)"
    "0 < sqlite_length (np_Token0 example_new_pair)"
    "0 < sqlite_length (np_Token1 example_new_pair)"
    by (simp_all add: example_defs model_defs)
  have runs: "handleNewPair no_faults (example_new_pair\<lparr>np_Token0 := ''X'', np_Timestamp := 0\<rparr>)
     (consumer_on [example_row]) = (Success, consumer_on [example_row])"
    "handleNewPair no_faults example_new_pair (consumer_on []) = (Success, consumer_on [example_row])"
    "handleNewPair no_faults example_new_pair (consumer_on [example_row]) =
      (Success, consumer_on [example_row])"
    "rows_for ''P1'' (pairs (consumer_on [example_row])) = 1"
    by (simp_all add: example_defs model_defs)
  from fact hyps runs show ?thesis by blast
qed

text \<open>
  C1 as stated fails: the address \<open>P1\<close> is stored, the consumer is ready and no storage
  call fails, yet an event for \<open>P1\<close> with an empty \<^verbatim>\<open>token_0\<close> does not return nil: the
  validation of lines 162-164 comes first and returns its error. The table is unchanged.
\<close>

theorem handleNewPair_existing_address_rejected:
  "np_PairAddress (example_new_pair\<lparr>np_Token0 := []\<rparr>)
     \<in> set (addresses (pairs (consumer_on [example_row]))) \<and>
   ready (consumer_on [example_row]) \<and> storage_ok no_faults \<and>
   handleNewPair no_faults (example_new_pair\<lparr>np_Token0 := []\<rparr>) (consumer_on [example_row]) =
     (Failure InvalidNewPairEvent, consumer_on [example_row]) \<and>
   fst (handleNewPair no_faults (example_new_pair\<lparr>np_Token0 := []\<rparr>) (consumer_on [example_row]))
     \<noteq> Success"
  by (simp add: example_defs model_defs)

subsection \<open>Dispatch\<close>



text \<open>
  C7. \<^verbatim>\<open>Process\<close> never deletes a row. For every state, every message and every
  behaviour of the library and of the storage calls, the addresses stored before are
  stored afterwards, in the same positions (new rows are appended); the same holds after
  any sequence of \<^verbatim>\<open>Process\<close> calls; and the table changes only when the message decodes
  to the type \<open>new_pair\<close> or \<open>sync\<close>.
\<close>

theorem Process_never_deletes:
  "set (addresses (pairs s)) \<subseteq> set (addresses (pairs (snd (Process J F msg s)))) \<and>
   take (length (pairs s)) (addresses (pairs (snd (Process J F msg s)))) = addresses (pairs s) \<and>
   set (addresses (pairs s)) \<subseteq> set (addresses (pairs (process_all J steps s))) \<and>
   (pairs (snd (Process J F msg s)) \<noteq> pairs s \<longrightarrow>
      (\<exists>b. Payload msg = GoBytes b \<and>
         (json_Unmarshal J (into_type J) b = Some ''new_pair'' \<or>
          json_Unmarshal J (into_type J) b = Some ''sync'')))"
  using Process_keeps_addresses[of s J F msg] Process_addresses_extend[of s J F msg]
    process_all_keeps_addresses[of s J steps] Process_changes_only_by_events[of J F msg s]
  by blast

text \<open>
  A new pair, a message of unknown type, then a sync: the pair stored at the start is
  still there.
\<close>

theorem Process_never_deletes_witness:
  "process_all example_json
     [(no_faults, \<lparr>Payload = GoBytes payload_new_pair\<rparr>),
      (no_faults, \<lparr>Payload = GoBytes payload_swap\<rparr>),
      (no_faults, \<lparr>Payload = GoBytes payload_sync\<rparr>)] (consumer_on [other_row]) =
     consumer_on [other_row,
        \<lparr>pair_address = ''P1'', token_0 = ''A'', token_1 = ''B'', reserve_0 = ''100'',
         reserve_1 = ''50'', created_at = 1704067200, last_sync_at = Some 1704070800,
         last_sync_ledger = Some 42\<rparr>] \<and>
   set (addresses (pairs (consumer_on [other_row]))) \<subseteq>
     set (addresses (pairs (process_all example_json
       [(no_faults, \<lparr>Payload = GoBytes payload_new_pair\<rparr>),
        (no_faults, \<lparr>Payload = GoBytes payload_swap\<rparr>),
        (no_faults, \<lparr>Payload = GoBytes payload_sync\<rparr>)] (consumer_on [other_row])))) \<and>
   pairs (snd (Process example_json no_faults \<lparr>Payload = GoBytes payload_new_pair\<rparr>
     (consumer_on [other_row]))) \<noteq> pairs (consumer_on [other_row]) \<and>
   json_Unmarshal example_json (into_type example_json) payload_new_pair = Some ''new_pair''"
proof -
  note fact = Process_never_deletes[of "consumer_on [other_row]" example_json no_faults
      "\<lparr>Payload = GoBytes payload_new_pair\<rparr>"
      "[(no_faults, \<lparr>Payload = GoBytes payload_new_pair\<rparr>),
        (no_faults, \<lparr>Payload = GoBytes payload_swap\<rparr>),
        (no_faults, \<lparr>Payload = GoBytes payload_sync\<rparr>)]"]
  have runs:
    "process_all example_json
     [(no_faults, \<lparr>Payload = GoBytes payload_new_pair\<rparr>),
      (no_faults, \<lparr>Payload = GoBytes payload_swap\<rparr>),
      (no_faults, \<lparr>Payload = GoBytes payload_sync\<rparr>)] (consumer_on [other_row]) =
     consumer_on [other_row,
        \<lparr>pair_address = ''P1'', token_0 = ''A'', token_1 = ''B'', reserve_0 = ''100'',
         reserve_1 = ''50'', created_at = 1704067200, last_sync_at = Some 1704070800,
         last_sync_ledger = Some 42\<rparr>]"
    "pairs (snd (Process example_json no_faults \<lparr>Payload = GoBytes payload_new_pair\<rparr>
       (consumer_on [other_row]))) \<noteq> pairs (consumer_on [other_row])"
    "json_Unmarshal example_json (into_type example_json) payload_new_pair = Some ''new_pair''"
    by (simp_all add: example_defs model_defs)
  from fact runs show ?thesis by blast
qed

subsection \<open>Lifecycle\<close>

text \<open>
  C8. \<^verbatim>\<open>Close\<close> on a consumer whose \<^verbatim>\<open>db\<close> is nil (never initialised) returns nil and
  changes nothing. Any number of \<^verbatim>\<open>Close\<close> calls never panics and releases the
  connections at most once; after one \<^verbatim>\<open>Close\<close>, every further one returns nil and
  changes nothing. The program calls \<^verbatim>\<open>db.Close()\<close> each time (it never resets the
  field); that the second call releases nothing is the behaviour of \<^verbatim>\<open>database/sql\<close>.
\<close>

theorem Close_is_safe:
  "(db s = None \<longrightarrow> Close f s = (Success, s)) \<and>
   Panic \<notin> set (fst (close_all fs s)) \<and>
   releases (snd (close_all fs s)) \<le> Suc (releases s) \<and>
   Close f2 (snd (Close f1 s)) = (Success, snd (Close f1 s))"
  using Close_nil[of s f] close_all_no_Panic[of fs s] close_all_releases[of fs s]
    Close_again[of f2 f1 s]
  by blast

text \<open>
  Before \<^verbatim>\<open>Initialize\<close>, and three calls on an open handle.
\<close>

theorem Close_is_safe_witness:
  "db New = None \<and> Close False New = (Success, New) \<and>
   releases (consumer_on [example_row]) = 0 \<and>
   close_all [False, False, True] (consumer_on [example_row]) =
     ([Success, Success, Success],
      (consumer_on [example_row])\<lparr>db := Some ((open_handle [example_row])
         \<lparr>closed := True, conn_closes := 1\<rparr>)\<rparr>) \<and>
   releases (snd (close_all [False, False, True] (consumer_on [example_row]))) \<le> 1"
proof -
  note fact = Close_is_safe[of New False "[False, False, True]" False False]
  note fact2 = Close_is_safe[of "consumer_on [example_row]" False "[False, False, True]" False False]
  have runs: "db New = None"
    "releases (consumer_on [example_row]) = 0"
    "close_all [False, False, True] (consumer_on [example_row]) =
     ([Success, Success, Success],
      (consumer_on [example_row])\<lparr>db := Some ((open_handle [example_row])
         \<lparr>closed := True, conn_closes := 1\<rparr>)\<rparr>)"
    by (simp_all add: example_defs model_defs)
  from fact fact2 runs show ?thesis by simp
qed

text \<open>
  C9. When the configuration has no \<open>db_path\<close> key, or a \<open>db_path\<close> that is not a
  string, \<^verbatim>\<open>Initialize\<close> uses the path \<open>soroswap_pairs.sqlite\<close>: the field \<^verbatim>\<open>dbPath\<close> is
  set to it, the outcome depends on the four storage calls only (no error for the
  configuration), and on success the handle is open on that path.
\<close>

theorem Initialize_falls_back_to_default_path:
  assumes "config ''db_path'' = None \<or>
           (\<exists>v. config ''db_path'' = Some v \<and> (\<forall>p. v \<noteq> GoString p))"
  shows "dbPath (snd (Initialize config E s)) = ''soroswap_pairs.sqlite'' \<and>
         fst (Initialize config E s) =
           (if open_fails E then Failure OpenFailed
            else if ping_fails E then Failure PingFailed
            else if pragma_fails E then Failure PragmaFailed
            else if create_table_fails E then Failure CreateTableFailed
            else Success) \<and>
         (fst (Initialize config E s) = Success \<longrightarrow>
            (\<exists>h. db (snd (Initialize config E s)) = Some h \<and>
                 dsn h = ''soroswap_pairs.sqlite'' \<and> \<not> closed h))"
proof -
  have path: "dbPath (snd (Initialize config E s)) = ''soroswap_pairs.sqlite''"
    using assms by (rule Initialize_default_path)
  have "\<exists>h. db (snd (Initialize config E s)) = Some h \<and>
      dsn h = ''soroswap_pairs.sqlite'' \<and> \<not> closed h"
    if "fst (Initialize config E s) = Success"
    using Initialize_handle[OF that] path by simp
  with path Initialize_outcome[of config E s] show ?thesis by blast
qed

text \<open>
  An empty configuration, and one whose \<open>db_path\<close> is a number.
\<close>

theorem Initialize_falls_back_to_default_path_witness:
  "(\<lambda>k. None :: go_value option) ''db_path'' = None \<and>
   [''db_path'' \<mapsto> GoInt 5432] ''db_path'' = Some (GoInt 5432) \<and>
   (\<forall>p. GoInt 5432 \<noteq> GoString p) \<and>
   Initialize (\<lambda>k. None) healthy_env New = (Success, consumer_on []) \<and>
   Initialize [''db_path'' \<mapsto> GoInt 5432] healthy_env New = (Success, consumer_on []) \<and>
   dbPath (snd (Initialize [''db_path'' \<mapsto> GoInt 5432] (healthy_env\<lparr>open_fails := True\<rparr>) New)) =
     ''soroswap_pairs.sqlite''"
proof -
  have hyps: "(\<lambda>k. None :: go_value option) ''db_path'' = None"
    "[''db_path'' \<mapsto> GoInt 5432] ''db_path'' = Some (GoInt 5432)"
    "\<forall>p. GoInt 5432 \<noteq> GoString p"
    by simp_all
  have a: "(\<lambda>k. None :: go_value option) ''db_path'' = None \<or>
      (\<exists>v. (\<lambda>k. None :: go_value option) ''db_path'' = Some v \<and> (\<forall>p. v \<noteq> GoString p))"
    by simp
  have b: "[''db_path'' \<mapsto> GoInt 5432] ''db_path'' = None \<or>
      (\<exists>v. [''db_path'' \<mapsto> GoInt 5432] ''db_path'' = Some v \<and> (\<forall>p. v \<noteq> GoString p))"
    by simp
  note fact1 = Initialize_falls_back_to_default_path
      [of "\<lambda>k. None" healthy_env New, OF a]
  note fact2 = Initialize_falls_back_to_default_path
      [of "[''db_path'' \<mapsto> GoInt 5432]" "healthy_env\<lparr>open_fails := True\<rparr>" New, OF b]
  have runs: "Initialize (\<lambda>k. None) healthy_env New = (Success, consumer_on [])"
    "Initialize [''db_path'' \<mapsto> GoInt 5432] healthy_env New = (Success, consumer_on [])"
    by (simp_all add: example_defs model_defs)
  from fact1 fact2 hyps runs show ?thesis by blast
qed

subsection \<open>Sync events without validation\<close>

text \<open>
  C10. \<^verbatim>\<open>handleSync\<close> validates no field: on a ready consumer, in a run where no storage
  call fails, it returns nil for every event. For every event with an empty
  \<^verbatim>\<open>contract_id\<close>, whatever its other fields (also when the reserve, timestamp and ledger
  fields are missing and decode to their zero values), on a table whose rows pass the
  \<^verbatim>\<open>CHECK\<close> constraints, no row has that address, so the existence check is false: the
  consumer and its table are unchanged, and the call returns nil when the consumer is
  ready and the begin and the existence query do not fail.
\<close>

theorem handleSync_empty_contract_id:
  "(ready s \<and> storage_ok F \<longrightarrow> fst (handleSync F ev s) = Success) \<and>
   (sy_ContractID ev = [] \<and> list_all check_constraints (pairs s) \<longrightarrow>
      snd (handleSync F ev s) = s \<and>
      (ready s \<and> \<not> begin_tx_fails F \<and> \<not> query_fails F \<longrightarrow>
         handleSync F ev s = (Success, s)))"
proof -
  have any: "fst (handleSync F ev s) = Success" if "ready s" "storage_ok F"
    using that by (rule handleSync_ready_success)
  have empty: "snd (handleSync F ev s) = s \<and>
      (ready s \<and> \<not> begin_tx_fails F \<and> \<not> query_fails F \<longrightarrow> handleSync F ev s = (Success, s))"
    if "sy_ContractID ev = []" "list_all check_constraints (pairs s)"
  proof -
    have absent: "sy_ContractID ev \<notin> set (addresses (pairs s))"
      using schema_ok_no_empty_address[OF that(2)] that(1) by simp
    have same: "snd (handleSync F ev s) = s"
      using absent by (rule handleSync_absent_unchanged)
    have "fst (handleSync F ev s) = Success"
      if "ready s" "\<not> begin_tx_fails F" "\<not> query_fails F"
      using absent that by (rule handleSync_absent_success)
    with same show ?thesis by (auto simp: prod_eq_iff)
  qed
  from any empty show ?thesis by blast
qed

text \<open>
  An event with every field at its zero value, on a table with two pairs.
\<close>

theorem handleSync_empty_contract_id_witness:
  "ready (consumer_on [other_row, example_row]) \<and> storage_ok no_faults \<and>
   sy_ContractID \<lparr>sy_Type = ''sync'', sy_ContractID = [], sy_NewReserve0 = [],
      sy_NewReserve1 = [], sy_Timestamp = zero_time, sy_LedgerSequence = 0\<rparr> = [] \<and>
   list_all check_constraints (pairs (consumer_on [other_row, example_row])) \<and>
   handleSync no_faults \<lparr>sy_Type = ''sync'', sy_ContractID = [], sy_NewReserve0 = [],
      sy_NewReserve1 = [], sy_Timestamp = zero_time, sy_LedgerSequence = 0\<rparr>
     (consumer_on [other_row, example_row]) = (Success, consumer_on [other_row, example_row])"
proof -
  note fact = handleSync_empty_contract_id[of "consumer_on [other_row, example_row]" no_faults
      "\<lparr>sy_Type = ''sync'', sy_ContractID = [], sy_NewReserve0 = [],
        sy_NewReserve1 = [], sy_Timestamp = zero_time, sy_LedgerSequence = 0\<rparr>"]
  have hyps: "ready (consumer_on [other_row, example_row])" "storage_ok no_faults"
    "sy_ContractID \<lparr>sy_Type = ''sync'', sy_ContractID = [], sy_NewReserve0 = [],
      sy_NewReserve1 = [], sy_Timestamp = zero_time, sy_LedgerSequence = 0\<rparr> = []"
    "list_all check_constraints (pairs (consumer_on [other_row, example_row]))"
    by (simp_all add: example_defs model_defs)
  have run: "handleSync no_faults \<lparr>sy_Type = ''sync'', sy_ContractID = [], sy_NewReserve0 = [],
      sy_NewReserve1 = [], sy_Timestamp = zero_time, sy_LedgerSequence = 0\<rparr>
     (consumer_on [other_row, example_row]) = (Success, consumer_on [other_row, example_row])"
    by (simp add: example_defs model_defs)
  from fact hyps run show ?thesis by blast
qed

text \<open>
  Outside the empty \<^verbatim>\<open>contract_id\<close>: an event with the \<^verbatim>\<open>contract_id\<close> of a stored pair
  and missing reserve, timestamp and ledger fields is accepted as well, and the zero
  values are written into the row.
\<close>

lemma handleSync_missing_reserves_overwrite:
  "handleSync no_faults
     \<lparr>sy_Type = ''sync'', sy_ContractID = ''P1'', sy_NewReserve0 = [], sy_NewReserve1 = [],
      sy_Timestamp = zero_time, sy_LedgerSequence = 0\<rparr> (consumer_on [example_row]) =
     (Success, consumer_on [example_row\<lparr>reserve_0 := [], reserve_1 := [],
        last_sync_at := Some zero_time, last_sync_ledger := Some 0\<rparr>]) \<and>
   pairs (consumer_on [example_row\<lparr>reserve_0 := [], reserve_1 := [],
        last_sync_at := Some zero_time, last_sync_ledger := Some 0\<rparr>]) \<noteq>
   pairs (consumer_on [example_row])"
  by (simp add: example_defs model_defs)

end
